theory Spec2Isabelle
  imports Complex_Main "HOL-Library.Sublist"
begin

section \<open>Sentiment analysis of the "My Lawyer" chatbot (lib/my-lawyer/sentiment)\<close>

text \<open>
  A shallow embedding of the sentiment module: \<open>analyzeTextScore\<close>, \<open>analyzeSentiment\<close>,
  \<open>getMoodFromScore\<close> and \<open>getStrategyFromMood\<close>.

  Conventions of the embedding.
  \<^item> A JavaScript string is a \<^typ>\<open>string\<close>; the texts considered are ASCII, so that
    \<open>toLowerCase\<close> changes exactly the letters \<open>A\<close> to \<open>Z\<close>.
  \<^item> A JavaScript number is an exact rational (\<^typ>\<open>rat\<close>) where the source computes with
    fractions (the decayed history sum), and an \<^typ>\<open>int\<close> where it only ever holds an
    integer (a raw text score, the final score). The source computes the decayed sum in
    IEEE doubles (\<open>Math.pow(0.6, i)\<close>, a product and \<open>+=\<close>), whose rounding errors are not
    modelled: on a long history the double total can reach a half that the exact total
    stays below, and the rounded score then differs by one. The concrete values proved
    below are taken at inputs where every product and sum is exact in doubles too.
  \<^item> The optional parameter \<open>history?\<close> is a \<^typ>\<open>'a option\<close>.
\<close>

subsection \<open>Data model\<close>

datatype Mood = POSITIVE | NEUTRAL | SKEPTICAL | HOSTILE

datatype Strategy = AGGRESSIVE | ASSERTIVE | DIPLOMATIC | YIELDING

record message =
  role :: string
  content :: string

subsection \<open>The lexicons\<close>

definition ANGER_WORDS :: "string list" where
  "ANGER_WORDS =
    [''stupid'', ''wrong'', ''disagree'', ''hate'', ''terrible'', ''useless'', ''bad'',
     ''worst'', ''awful'', ''ridiculous'', ''nonsense'', ''garbage'', ''trash'', ''liar'',
     ''fake'', ''scam'']"

definition SKEPTICAL_PHRASES :: "string list" where
  "SKEPTICAL_PHRASES =
    [''i don't think'', ''i dont think'', ''that's not true'', ''thats not true'',
     ''prove it'', ''not convinced'', ''i doubt'', ''unlikely'', ''hard to believe'',
     ''show me proof'', ''yeah right'', ''sure...'', ''really?'', ''are you sure'',
     ''i'm not sure'', ''im not sure'']"

definition POSITIVE_WORDS :: "string list" where
  "POSITIVE_WORDS =
    [''great'', ''awesome'', ''excellent'', ''amazing'', ''impressive'', ''wonderful'',
     ''fantastic'', ''love'', ''thank'', ''thanks'', ''please'', ''interesting'', ''cool'',
     ''nice'', ''good'', ''helpful'']"

subsection \<open>String primitives used by the scorer\<close>

text \<open>The character class \<open>[A-Z]\<close>.\<close>

definition isUpper :: "char \<Rightarrow> bool" where
  "isUpper c = (c \<in> set ''ABCDEFGHIJKLMNOPQRSTUVWXYZ'')"

text \<open>The character class \<open>\w\<close>, which decides the word boundaries \<open>\b\<close>.\<close>

definition isWordChar :: "char \<Rightarrow> bool" where
  "isWordChar c =
     (c \<in> set ''ABCDEFGHIJKLMNOPQRSTUVWXYZabcdefghijklmnopqrstuvwxyz0123456789_'')"

text \<open>\<open>String.prototype.toLowerCase\<close> on ASCII text.\<close>

definition toLowerChar :: "char \<Rightarrow> char" where
  "toLowerChar c =
     (case map_of (zip ''ABCDEFGHIJKLMNOPQRSTUVWXYZ'' ''abcdefghijklmnopqrstuvwxyz'') c of
        Some l \<Rightarrow> l
      | None \<Rightarrow> c)"

definition toLowerCase :: "string \<Rightarrow> string" where
  "toLowerCase s = map toLowerChar s"

text \<open>\<open>s.includes(w)\<close>: \<open>w\<close> occurs in \<open>s\<close> as a contiguous substring.\<close>

fun str_includes :: "string \<Rightarrow> string \<Rightarrow> bool" where
  "str_includes [] w = (w = [])"
| "str_includes (x # xs) w = (prefix w (x # xs) \<or> str_includes xs w)"

text \<open>
  \<open>(text.match(/\b[A-Z]{3,}\b/g) || []).length\<close>: the number of matches found by scanning
  from left to right, each search resuming where the previous match ended. The flag says
  whether the character before the current position is a word character (false at the
  start of the text). A match at the current position needs a word boundary there, a
  run of at least three capitals, and a word boundary where the run ends; the greedy run
  is the only candidate, since inside a run of capitals there is no word boundary.
\<close>

function capsWordsFrom :: "bool \<Rightarrow> string \<Rightarrow> nat" where
  "capsWordsFrom prevWord [] = 0"
| "capsWordsFrom prevWord (c # cs) =
     (if \<not> prevWord \<and> 3 \<le> length (takeWhile isUpper (c # cs)) \<and>
         (case dropWhile isUpper (c # cs) of [] \<Rightarrow> True | d # _ \<Rightarrow> \<not> isWordChar d)
      then 1 + capsWordsFrom True (dropWhile isUpper (c # cs))
      else capsWordsFrom (isWordChar c) cs)"
  by pat_completeness auto
termination
proof (relation "measure (\<lambda>(p, s). length s)")
  show "wf (measure (\<lambda>(p, s). length s))" by simp
next
  fix prevWord :: bool and c :: char and cs :: string
  assume "\<not> prevWord \<and> 3 \<le> length (takeWhile isUpper (c # cs)) \<and>
    (case dropWhile isUpper (c # cs) of [] \<Rightarrow> True | d # _ \<Rightarrow> \<not> isWordChar d)"
  then have "0 < length (takeWhile isUpper (c # cs))" by linarith
  moreover have "length (takeWhile isUpper (c # cs)) + length (dropWhile isUpper (c # cs))
      = length (c # cs)"
    by (metis length_append takeWhile_dropWhile_id)
  ultimately have "length (dropWhile isUpper (c # cs)) < length (c # cs)" by linarith
  then show "((True, dropWhile isUpper (c # cs)), (prevWord, c # cs))
      \<in> measure (\<lambda>(p, s). length s)" by simp
next
  fix prevWord :: bool and c :: char and cs :: string
  show "((isWordChar c, cs), (prevWord, c # cs)) \<in> measure (\<lambda>(p, s). length s)" by simp
qed

definition capsWords :: "string \<Rightarrow> nat" where
  "capsWords text = capsWordsFrom False text"

text \<open>
  \<open>(text.match(/p{2,}/g) || []).length\<close> for a punctuation character \<open>p\<close>: the number of
  greedy, non-overlapping runs of two or more \<open>p\<close>.
\<close>

function multiPunct :: "char \<Rightarrow> string \<Rightarrow> nat" where
  "multiPunct p [] = 0"
| "multiPunct p (c # cs) =
     (if 2 \<le> length (takeWhile (\<lambda>x. x = p) (c # cs))
      then 1 + multiPunct p (dropWhile (\<lambda>x. x = p) (c # cs))
      else multiPunct p cs)"
  by pat_completeness auto
termination
proof (relation "measure (\<lambda>(p, s). length s)")
  show "wf (measure (\<lambda>(p, s). length s))" by simp
next
  fix p c :: char and cs :: string
  assume "2 \<le> length (takeWhile (\<lambda>x. x = p) (c # cs))"
  then have "0 < length (takeWhile (\<lambda>x. x = p) (c # cs))" by linarith
  moreover have "length (takeWhile (\<lambda>x. x = p) (c # cs))
      + length (dropWhile (\<lambda>x. x = p) (c # cs)) = length (c # cs)"
    by (metis length_append takeWhile_dropWhile_id)
  ultimately have "length (dropWhile (\<lambda>x. x = p) (c # cs)) < length (c # cs)" by linarith
  then show "((p, dropWhile (\<lambda>x. x = p) (c # cs)), (p, c # cs))
      \<in> measure (\<lambda>(p, s). length s)" by simp
next
  fix p c :: char and cs :: string
  show "((p, cs), (p, c # cs)) \<in> measure (\<lambda>(p, s). length s)" by simp
qed

subsection \<open>analyzeTextScore\<close>

text \<open>One \<open>for (const word of LEXICON) { if (lower.includes(word)) score += delta }\<close> loop.\<close>

definition lexiconLoop :: "int \<Rightarrow> string list \<Rightarrow> string \<Rightarrow> int \<Rightarrow> int" where
  "lexiconLoop delta lexicon lower score0 =
     fold (\<lambda>word score. if str_includes lower word then score + delta else score)
       lexicon score0"

definition analyzeTextScore :: "string \<Rightarrow> int" where
  "analyzeTextScore text =
     (let lower = toLowerCase text;
          score0 = 0;
          score1 = lexiconLoop 15 ANGER_WORDS lower score0;
          score2 = lexiconLoop 10 SKEPTICAL_PHRASES lower score1;
          score3 = lexiconLoop (- 8) POSITIVE_WORDS lower score2;
          score4 = score3 + int (capsWords text) * 12;
          multiExclamation = multiPunct (CHR ''!'') text;
          multiQuestion = multiPunct (CHR ''?'') text
      in score4 + int (multiExclamation + multiQuestion) * 8)"

subsection \<open>getMoodFromScore and getStrategyFromMood\<close>

fun getMoodFromScore :: "int \<Rightarrow> Mood" where
  "getMoodFromScore score =
     (if score \<ge> 70 then HOSTILE
      else if score \<ge> 40 then SKEPTICAL
      else if score \<ge> 20 then NEUTRAL
      else POSITIVE)"

text \<open>
  At run time a \<open>Mood\<close> is the string naming it, and the \<open>switch\<close> of
  \<open>getStrategyFromMood\<close> compares that string with its four case labels; it has a
  \<open>default\<close> arm besides. The arm taken is kept apart from the value returned, because
  the \<open>default\<close> arm and the \<open>NEUTRAL\<close> arm return the same strategy.
\<close>

fun moodString :: "Mood \<Rightarrow> string" where
  "moodString POSITIVE = ''POSITIVE''"
| "moodString NEUTRAL = ''NEUTRAL''"
| "moodString SKEPTICAL = ''SKEPTICAL''"
| "moodString HOSTILE = ''HOSTILE''"

datatype switchArm = CasePOSITIVE | CaseNEUTRAL | CaseSKEPTICAL | CaseHOSTILE | CaseDefault

definition strategySwitch :: "string \<Rightarrow> switchArm" where
  "strategySwitch m =
     (if m = ''POSITIVE'' then CasePOSITIVE
      else if m = ''NEUTRAL'' then CaseNEUTRAL
      else if m = ''SKEPTICAL'' then CaseSKEPTICAL
      else if m = ''HOSTILE'' then CaseHOSTILE
      else CaseDefault)"

fun armResult :: "switchArm \<Rightarrow> Strategy" where
  "armResult CasePOSITIVE = AGGRESSIVE"
| "armResult CaseNEUTRAL = ASSERTIVE"
| "armResult CaseSKEPTICAL = DIPLOMATIC"
| "armResult CaseHOSTILE = YIELDING"
| "armResult CaseDefault = ASSERTIVE"

definition getStrategyFromMood :: "Mood \<Rightarrow> Strategy" where
  "getStrategyFromMood m = armResult (strategySwitch (moodString m))"

subsection \<open>analyzeSentiment\<close>

record SentimentResult =
  mood :: Mood
  score :: int
  strategy :: Strategy

definition decayFactor :: rat where
  "decayFactor = 6 / 10"

text \<open>\<open>Math.round\<close>: the nearest integer, a tie going up.\<close>

definition Math_round :: "rat \<Rightarrow> int" where
  "Math_round x = \<lfloor>x + 1 / 2\<rfloor>"

text \<open>
  The \<open>for (let i = 0; i < userMessages.length; i++)\<close> loop, with the running
  \<open>totalScore\<close> as accumulator. Inside the loop \<open>i < userMessages.length\<close>, so the
  subtractions on natural numbers are the source's subtractions.
\<close>

function historyLoop :: "message list \<Rightarrow> nat \<Rightarrow> rat \<Rightarrow> rat" where
  "historyLoop userMessages i totalScore =
     (if i < length userMessages then
        (let messageAge = length userMessages - 1 - i;
             weight = decayFactor ^ (length userMessages - 1 - messageAge);
             messageScore = analyzeTextScore (content (userMessages ! i))
         in historyLoop userMessages (i + 1) (totalScore + of_int messageScore * weight))
      else totalScore)"
  by pat_completeness auto
termination
  by (relation "measure (\<lambda>(us, i, t). length us - i)") auto

declare historyLoop.simps [simp del]

text \<open>The value of \<open>totalScore\<close> when the source rounds it.\<close>

definition totalScore :: "string \<Rightarrow> message list option \<Rightarrow> rat" where
  "totalScore text history =
     (let fromHistory =
            (case history of
               None \<Rightarrow> 0
             | Some h \<Rightarrow>
                 if length h > 0
                 then historyLoop (filter (\<lambda>m. role m = ''user'') h) 0 0
                 else 0)
      in fromHistory + of_int (analyzeTextScore text))"

definition analyzeSentiment :: "string \<Rightarrow> message list option \<Rightarrow> SentimentResult" where
  "analyzeSentiment text history =
     (let finalScore = max 0 (min (Math_round (totalScore text history)) 100);
          mood = getMoodFromScore finalScore;
          strategy = getStrategyFromMood mood
      in \<lparr>mood = mood, score = finalScore, strategy = strategy\<rparr>)"

subsection \<open>The weighting as the specification words it\<close>

text \<open>
  The retained turns of a history: its \<open>user\<close> entries in their order, none for an absent
  history.
\<close>

definition userTurns :: "message list option \<Rightarrow> message list" where
  "userTurns history =
     (case history of None \<Rightarrow> [] | Some h \<Rightarrow> filter (\<lambda>m. role m = ''user'') h)"

text \<open>
  The specification gives the turn at zero-based index \<open>i\<close> of \<open>N\<close> retained turns
  (the oldest at index 0) the weight \<open>decayFactor ^ (N - 1 - i)\<close>, sums the weighted raw
  scores and adds the raw score of the current utterance.
\<close>

definition spec_weight :: "nat \<Rightarrow> nat \<Rightarrow> rat" where
  "spec_weight N i = decayFactor ^ (N - 1 - i)"

definition spec_totalScore :: "string \<Rightarrow> message list option \<Rightarrow> rat" where
  "spec_totalScore text history =
     (let turns = userTurns history; N = length turns
      in (\<Sum>(i, m)\<leftarrow>enumerate 0 turns.
            of_int (analyzeTextScore (content m)) * spec_weight N i)
         + of_int (analyzeTextScore text))"

section \<open>Properties\<close>

subsection \<open>The history loop in closed form\<close>

lemma historyLoop_sum:
  "historyLoop us i t =
     t + (\<Sum>j = i..<length us. of_int (analyzeTextScore (content (us ! j))) * decayFactor ^ j)"
proof (induction us i t rule: historyLoop.induct)
  case (1 us i t)
  show ?case
  proof (cases "i < length us")
    case True
    then have e: "length us - 1 - (length us - 1 - i) = i"
      and e': "length us - Suc (length us - Suc i) = i" by linarith+
    have "historyLoop us i t =
        historyLoop us (i + 1) (t + of_int (analyzeTextScore (content (us ! i))) * decayFactor ^ i)"
      using True by (subst historyLoop.simps) (simp add: Let_def e)
    also have "\<dots> = t + of_int (analyzeTextScore (content (us ! i))) * decayFactor ^ i
        + (\<Sum>j = i + 1..<length us. of_int (analyzeTextScore (content (us ! j))) * decayFactor ^ j)"
      using "1.IH" [OF True refl refl refl] by (simp add: e e')
    also have "\<dots> = t + (\<Sum>j = i..<length us.
        of_int (analyzeTextScore (content (us ! j))) * decayFactor ^ j)"
      using True by (simp add: sum.atLeast_Suc_lessThan)
    finally show ?thesis .
  next
    case False
    then show ?thesis by (subst historyLoop.simps) simp
  qed
qed

lemma historyLoop_Nil: "historyLoop [] 0 0 = 0"
  by (simp add: historyLoop_sum)

lemma totalScore_userTurns:
  "totalScore text history = historyLoop (userTurns history) 0 0 + of_int (analyzeTextScore text)"
  by (cases history) (auto simp: totalScore_def userTurns_def historyLoop_Nil)

text \<open>
  What the loop computes for every text and history: the retained turn at index \<open>i\<close> is
  weighted by \<open>decayFactor ^ i\<close>, whatever the number of retained turns.
\<close>

lemma totalScore_code_weights:
  "totalScore text history =
     (\<Sum>i<length (userTurns history).
        of_int (analyzeTextScore (content (userTurns history ! i))) * decayFactor ^ i)
     + of_int (analyzeTextScore text)"
  by (simp add: totalScore_userTurns historyLoop_sum atLeast0LessThan)

lemma Math_round_eq_round: "Math_round x = round x"
  by (simp add: Math_round_def round_def)

subsection \<open>The lexicon loops count entries, the patterns count matches\<close>

lemma lexiconLoop_count:
  "lexiconLoop delta lexicon lower s =
     s + delta * int (length (filter (str_includes lower) lexicon))"
  unfolding lexiconLoop_def
  by (induction lexicon arbitrary: s) (simp_all add: algebra_simps)

lemma distinct_lexicons:
  "distinct ANGER_WORDS" "distinct SKEPTICAL_PHRASES" "distinct POSITIVE_WORDS"
  by (simp_all add: ANGER_WORDS_def SKEPTICAL_PHRASES_def POSITIVE_WORDS_def)

lemma length_filter_card:
  "distinct xs \<Longrightarrow> length (filter P xs) = card {w \<in> set xs. P w}"
  by (simp add: distinct_length_filter Int_def conj_commute)

lemma analyzeTextScore_formula:
  "analyzeTextScore text =
     15 * int (length (filter (str_includes (toLowerCase text)) ANGER_WORDS))
   + 10 * int (length (filter (str_includes (toLowerCase text)) SKEPTICAL_PHRASES))
   - 8 * int (length (filter (str_includes (toLowerCase text)) POSITIVE_WORDS))
   + 12 * int (capsWords text)
   + 8 * int (multiPunct (CHR ''!'') text + multiPunct (CHR ''?'') text)"
  by (simp add: analyzeTextScore_def Let_def lexiconLoop_count)

text \<open>\<open>str_includes\<close> is the substring relation.\<close>

lemma str_includes_iff: "str_includes s w \<longleftrightarrow> (\<exists>p q. s = p @ w @ q)"
proof (induction s)
  case Nil
  then show ?case by auto
next
  case (Cons x xs)
  show ?case
  proof
    assume "str_includes (x # xs) w"
    then consider "prefix w (x # xs)" | "str_includes xs w" by auto
    then show "\<exists>p q. x # xs = p @ w @ q"
    proof cases
      case 1
      then obtain q where "x # xs = w @ q" by (auto simp: prefix_def)
      then have "x # xs = [] @ w @ q" by simp
      then show ?thesis by blast
    next
      case 2
      then obtain p q where "xs = p @ w @ q" using Cons.IH by blast
      then have "x # xs = (x # p) @ w @ q" by simp
      then show ?thesis by blast
    qed
  next
    assume "\<exists>p q. x # xs = p @ w @ q"
    then obtain p q where pq: "x # xs = p @ w @ q" by blast
    show "str_includes (x # xs) w"
    proof (cases p)
      case Nil
      with pq have "prefix w (x # xs)" by (simp add: prefix_def)
      then show ?thesis by simp
    next
      case (Cons y ys)
      with pq have "xs = ys @ w @ q" by simp
      then have "str_includes xs w" using Cons.IH by blast
      then show ?thesis by simp
    qed
  qed
qed

lemma str_includes_set: "str_includes s w \<Longrightarrow> set w \<subseteq> set s"
  by (auto simp: str_includes_iff)

lemma not_includes_replicate:
  "\<not> set w \<subseteq> set x \<Longrightarrow> str_includes (concat (replicate n x)) w = False"
proof -
  assume a: "\<not> set w \<subseteq> set x"
  have "set (concat (replicate n x)) \<subseteq> set x" by (cases n) auto
  with a str_includes_set [of "concat (replicate n x)" w] show ?thesis by blast
qed

lemma includes_replicate_Suc:
  "prefix w x \<Longrightarrow> str_includes (concat (replicate (Suc n) x)) w = True"
proof -
  assume "prefix w x"
  then obtain q where "x = w @ q" by (auto simp: prefix_def)
  then have "concat (replicate (Suc n) x) = [] @ w @ (q @ concat (replicate n x))" by simp
  then show ?thesis unfolding str_includes_iff by blast
qed

lemma toLowerCase_replicate:
  "toLowerCase (concat (replicate n x)) = concat (replicate n (toLowerCase x))"
  by (simp add: toLowerCase_def map_concat)

lemma capsWordsFrom_no_upper: "\<forall>c \<in> set s. \<not> isUpper c \<Longrightarrow> capsWordsFrom p s = 0"
  by (induction s arbitrary: p) simp_all

lemma capsWords_replicate_no_upper:
  "\<forall>c \<in> set x. \<not> isUpper c \<Longrightarrow> capsWords (concat (replicate n x)) = 0"
  unfolding capsWords_def by (rule capsWordsFrom_no_upper) (cases n; auto)

lemma multiPunct_absent: "p \<notin> set s \<Longrightarrow> multiPunct p s = 0"
  by (induction s) auto

lemma multiPunct_replicate_absent: "p \<notin> set x \<Longrightarrow> multiPunct p (concat (replicate n x)) = 0"
  by (rule multiPunct_absent) (cases n; auto)

lemma capsWords_ABC: "capsWords (concat (replicate n ''ABC '')) = n"
  unfolding capsWords_def by (induction n) (simp_all add: isUpper_def isWordChar_def)

lemma multiPunct_excl: "multiPunct (CHR ''!'') (concat (replicate n ''!! '')) = n"
  by (induction n) simp_all

lemma multiPunct_quest: "multiPunct (CHR ''?'') (concat (replicate n ''?? '')) = n"
  by (induction n) simp_all

lemma lower_consts:
  "toLowerCase ''bad '' = ''bad ''" "toLowerCase ''ABC '' = ''abc ''"
  "toLowerCase ''!! '' = ''!! ''" "toLowerCase ''?? '' = ''?? ''"
  by (simp_all add: toLowerCase_def toLowerChar_def)

lemma score_bad: "analyzeTextScore (concat (replicate (Suc n) ''bad '')) = 15"
proof -
  have a: "filter (str_includes (concat (replicate (Suc n) ''bad ''))) ANGER_WORDS = [''bad'']"
    unfolding ANGER_WORDS_def
    by (simp add: not_includes_replicate includes_replicate_Suc del: replicate_Suc)
  have s: "filter (str_includes (concat (replicate (Suc n) ''bad ''))) SKEPTICAL_PHRASES = []"
    unfolding SKEPTICAL_PHRASES_def by (simp add: not_includes_replicate del: replicate_Suc)
  have p: "filter (str_includes (concat (replicate (Suc n) ''bad ''))) POSITIVE_WORDS = []"
    unfolding POSITIVE_WORDS_def by (simp add: not_includes_replicate del: replicate_Suc)
  have c: "capsWords (concat (replicate (Suc n) ''bad '')) = 0"
    by (rule capsWords_replicate_no_upper) (simp add: isUpper_def)
  have e: "multiPunct (CHR ''!'') (concat (replicate (Suc n) ''bad '')) = 0"
    "multiPunct (CHR ''?'') (concat (replicate (Suc n) ''bad '')) = 0"
    by (rule multiPunct_replicate_absent, simp)+
  show ?thesis
    unfolding analyzeTextScore_formula toLowerCase_replicate lower_consts a s p c e by simp
qed

lemma score_ABC: "analyzeTextScore (concat (replicate n ''ABC '')) = 12 * int n"
proof -
  have a: "filter (str_includes (concat (replicate n ''abc ''))) ANGER_WORDS = []"
    unfolding ANGER_WORDS_def by (simp add: not_includes_replicate)
  have s: "filter (str_includes (concat (replicate n ''abc ''))) SKEPTICAL_PHRASES = []"
    unfolding SKEPTICAL_PHRASES_def by (simp add: not_includes_replicate)
  have p: "filter (str_includes (concat (replicate n ''abc ''))) POSITIVE_WORDS = []"
    unfolding POSITIVE_WORDS_def by (simp add: not_includes_replicate)
  have e: "multiPunct (CHR ''!'') (concat (replicate n ''ABC '')) = 0"
    "multiPunct (CHR ''?'') (concat (replicate n ''ABC '')) = 0"
    by (rule multiPunct_replicate_absent, simp)+
  show ?thesis
    unfolding analyzeTextScore_formula toLowerCase_replicate lower_consts a s p capsWords_ABC e
    by simp
qed

lemma score_excl: "analyzeTextScore (concat (replicate n ''!! '')) = 8 * int n"
proof -
  have a: "filter (str_includes (concat (replicate n ''!! ''))) ANGER_WORDS = []"
    unfolding ANGER_WORDS_def by (simp add: not_includes_replicate)
  have s: "filter (str_includes (concat (replicate n ''!! ''))) SKEPTICAL_PHRASES = []"
    unfolding SKEPTICAL_PHRASES_def by (simp add: not_includes_replicate)
  have p: "filter (str_includes (concat (replicate n ''!! ''))) POSITIVE_WORDS = []"
    unfolding POSITIVE_WORDS_def by (simp add: not_includes_replicate)
  have c: "capsWords (concat (replicate n ''!! '')) = 0"
    by (rule capsWords_replicate_no_upper) (simp add: isUpper_def)
  have e: "multiPunct (CHR ''?'') (concat (replicate n ''!! '')) = 0"
    by (rule multiPunct_replicate_absent) simp
  show ?thesis
    unfolding analyzeTextScore_formula toLowerCase_replicate lower_consts a s p c e multiPunct_excl
    by simp
qed

lemma score_quest: "analyzeTextScore (concat (replicate n ''?? '')) = 8 * int n"
proof -
  have a: "filter (str_includes (concat (replicate n ''?? ''))) ANGER_WORDS = []"
    unfolding ANGER_WORDS_def by (simp add: not_includes_replicate)
  have s: "filter (str_includes (concat (replicate n ''?? ''))) SKEPTICAL_PHRASES = []"
    unfolding SKEPTICAL_PHRASES_def by (simp add: not_includes_replicate)
  have p: "filter (str_includes (concat (replicate n ''?? ''))) POSITIVE_WORDS = []"
    unfolding POSITIVE_WORDS_def by (simp add: not_includes_replicate)
  have c: "capsWords (concat (replicate n ''?? '')) = 0"
    by (rule capsWords_replicate_no_upper) (simp add: isUpper_def)
  have e: "multiPunct (CHR ''!'') (concat (replicate n ''?? '')) = 0"
    by (rule multiPunct_replicate_absent) simp
  show ?thesis
    unfolding analyzeTextScore_formula toLowerCase_replicate lower_consts a s p c e multiPunct_quest
    by simp
qed

subsection \<open>The decay weights\<close>

text \<open>
  C1. The claim: with \<open>N\<close> retained user turns, the turn at zero-based index \<open>i\<close> (the
  oldest at 0) is weighted by \<open>0.6 ^ (N - 1 - i)\<close>, so that the most recent turn has
  weight 1 and the oldest the smallest weight; the weighted raw scores are summed and the
  raw score of the current utterance is added at full weight. The loop of
  \<open>analyzeSentiment\<close> does not compute this: \<open>messageAge\<close> is \<open>N - 1 - i\<close> and the exponent is
  \<open>N - 1 - messageAge\<close>, that is \<open>i\<close>, so the oldest turn has weight 1 and the most recent
  one the smallest weight (lemma \<open>totalScore_code_weights\<close>). The theorem evaluates both on
  the history of a user turn "terrible and stupid" (raw score 30) followed by a user turn
  "ok" (raw score 0), with the current text "ok": the source totals 30 and answers
  NEUTRAL, the claimed weighting totals 18, a POSITIVE score.
\<close>

theorem decay_weights_reversed:
  "totalScore ''ok'' (Some [\<lparr>role = ''user'', content = ''terrible and stupid''\<rparr>,
                            \<lparr>role = ''user'', content = ''ok''\<rparr>]) = 30 \<and>
   spec_totalScore ''ok'' (Some [\<lparr>role = ''user'', content = ''terrible and stupid''\<rparr>,
                                 \<lparr>role = ''user'', content = ''ok''\<rparr>]) = 18 \<and>
   analyzeSentiment ''ok'' (Some [\<lparr>role = ''user'', content = ''terrible and stupid''\<rparr>,
                                  \<lparr>role = ''user'', content = ''ok''\<rparr>])
     = \<lparr>mood = NEUTRAL, score = 30, strategy = ASSERTIVE\<rparr> \<and>
   getMoodFromScore (max 0 (min (round (spec_totalScore ''ok''
       (Some [\<lparr>role = ''user'', content = ''terrible and stupid''\<rparr>,
              \<lparr>role = ''user'', content = ''ok''\<rparr>]))) 100)) = POSITIVE"
proof -
  have s1: "analyzeTextScore ''terrible and stupid'' = 30" by code_simp
  have s2: "analyzeTextScore ''ok'' = 0" by code_simp
  have u: "userTurns (Some [\<lparr>role = ''user'', content = ''terrible and stupid''\<rparr>,
                            \<lparr>role = ''user'', content = ''ok''\<rparr>])
      = [\<lparr>role = ''user'', content = ''terrible and stupid''\<rparr>,
         \<lparr>role = ''user'', content = ''ok''\<rparr>]"
    by (simp add: userTurns_def)
  have b1: "totalScore ''ok'' (Some [\<lparr>role = ''user'', content = ''terrible and stupid''\<rparr>,
                            \<lparr>role = ''user'', content = ''ok''\<rparr>]) = 30"
    by (simp add: totalScore_code_weights u s1 s2 lessThan_Suc numeral_2_eq_2)
  have b2: "spec_totalScore ''ok'' (Some [\<lparr>role = ''user'', content = ''terrible and stupid''\<rparr>,
                                 \<lparr>role = ''user'', content = ''ok''\<rparr>]) = 18"
    by (simp add: spec_totalScore_def u s1 s2 spec_weight_def decayFactor_def)
  have b3: "analyzeSentiment ''ok'' (Some [\<lparr>role = ''user'', content = ''terrible and stupid''\<rparr>,
                                  \<lparr>role = ''user'', content = ''ok''\<rparr>])
     = \<lparr>mood = NEUTRAL, score = 30, strategy = ASSERTIVE\<rparr>"
    by (simp add: analyzeSentiment_def b1 Math_round_eq_round getStrategyFromMood_def
        strategySwitch_def)
  have b4: "getMoodFromScore (max 0 (min (round (18 :: rat)) 100)) = POSITIVE" by simp
  show ?thesis unfolding b2 using b1 b3 b4 by simp
qed

subsection \<open>The final score is bounded\<close>

text \<open>
  C2. For every text and every history, the score returned by \<open>analyzeSentiment\<close> lies
  in the closed integer range from 0 to 100, however large or small the raw weighted sum.
\<close>

theorem analyzeSentiment_score_bounds:
  "0 \<le> score (analyzeSentiment text history) \<and> score (analyzeSentiment text history) \<le> 100"
  by (simp add: analyzeSentiment_def Let_def)

subsection \<open>Mood and strategy\<close>

text \<open>
  C3. The mood classifier is total and its bands partition the scores: a score of 70 or
  more is HOSTILE, one from 40 up to but excluding 70 is SKEPTICAL, one from 20 up to but
  excluding 40 is NEUTRAL, one below 20 is POSITIVE; a score of exactly 20 is NEUTRAL.
  Each mood is returned on its band and nowhere else, for every integer score and so for
  every score from 0 to 100.
\<close>

theorem getMoodFromScore_bands:
  "(getMoodFromScore s = HOSTILE \<longleftrightarrow> 70 \<le> s) \<and>
   (getMoodFromScore s = SKEPTICAL \<longleftrightarrow> 40 \<le> s \<and> s < 70) \<and>
   (getMoodFromScore s = NEUTRAL \<longleftrightarrow> 20 \<le> s \<and> s < 40) \<and>
   (getMoodFromScore s = POSITIVE \<longleftrightarrow> s < 20) \<and>
   getMoodFromScore 20 = NEUTRAL"
  by simp

text \<open>
  C4. The strategy selector is a fixed, total bijection from moods to strategies:
  POSITIVE gives AGGRESSIVE, NEUTRAL gives ASSERTIVE, SKEPTICAL gives DIPLOMATIC and
  HOSTILE gives YIELDING.
\<close>

theorem getStrategyFromMood_bijection:
  "getStrategyFromMood POSITIVE = AGGRESSIVE \<and>
   getStrategyFromMood NEUTRAL = ASSERTIVE \<and>
   getStrategyFromMood SKEPTICAL = DIPLOMATIC \<and>
   getStrategyFromMood HOSTILE = YIELDING \<and>
   bij getStrategyFromMood"
proof -
  have eqs: "getStrategyFromMood POSITIVE = AGGRESSIVE" "getStrategyFromMood NEUTRAL = ASSERTIVE"
    "getStrategyFromMood SKEPTICAL = DIPLOMATIC" "getStrategyFromMood HOSTILE = YIELDING"
    by (simp_all add: getStrategyFromMood_def strategySwitch_def)
  have "inj getStrategyFromMood"
  proof (rule injI)
    fix a b assume "getStrategyFromMood a = getStrategyFromMood b"
    then show "a = b" by (cases a; cases b) (simp_all add: eqs)
  qed
  moreover have "surj getStrategyFromMood"
  proof (rule surjI)
    fix y :: Strategy
    show "getStrategyFromMood (case y of AGGRESSIVE \<Rightarrow> POSITIVE | ASSERTIVE \<Rightarrow> NEUTRAL
        | DIPLOMATIC \<Rightarrow> SKEPTICAL | YIELDING \<Rightarrow> HOSTILE) = y"
      by (cases y) (simp_all add: eqs)
  qed
  ultimately have "bij getStrategyFromMood" by (simp add: bij_def)
  with eqs show ?thesis by simp
qed

text \<open>
  C8. Neither function has a default or error branch that a valid input reaches. For
  every score one of the four threshold bands applies and the classifier returns that
  band's mood; for each of the four moods the \<open>switch\<close> of the strategy selector takes the
  arm labelled with that mood, never its \<open>default\<close> arm, also on the mood the classifier
  returns.
\<close>

theorem classifier_selector_no_default:
  "((70 \<le> s \<and> getMoodFromScore s = HOSTILE) \<or>
    (40 \<le> s \<and> s < 70 \<and> getMoodFromScore s = SKEPTICAL) \<or>
    (20 \<le> s \<and> s < 40 \<and> getMoodFromScore s = NEUTRAL) \<or>
    (s < 20 \<and> getMoodFromScore s = POSITIVE)) \<and>
   strategySwitch (moodString m) =
     (case m of POSITIVE \<Rightarrow> CasePOSITIVE | NEUTRAL \<Rightarrow> CaseNEUTRAL
      | SKEPTICAL \<Rightarrow> CaseSKEPTICAL | HOSTILE \<Rightarrow> CaseHOSTILE) \<and>
   strategySwitch (moodString m) \<noteq> CaseDefault \<and>
   strategySwitch (moodString (getMoodFromScore s)) \<noteq> CaseDefault"
proof -
  have a: "strategySwitch (moodString m') =
     (case m' of POSITIVE \<Rightarrow> CasePOSITIVE | NEUTRAL \<Rightarrow> CaseNEUTRAL
      | SKEPTICAL \<Rightarrow> CaseSKEPTICAL | HOSTILE \<Rightarrow> CaseHOSTILE)" for m'
    by (cases m') (simp_all add: strategySwitch_def)
  have b: "strategySwitch (moodString m') \<noteq> CaseDefault" for m'
    by (cases m') (simp_all add: strategySwitch_def)
  have c: "(70 \<le> s \<and> getMoodFromScore s = HOSTILE) \<or>
    (40 \<le> s \<and> s < 70 \<and> getMoodFromScore s = SKEPTICAL) \<or>
    (20 \<le> s \<and> s < 40 \<and> getMoodFromScore s = NEUTRAL) \<or>
    (s < 20 \<and> getMoodFromScore s = POSITIVE)"
    by simp
  show ?thesis using a b c by blast
qed

subsection \<open>The history filter\<close>

text \<open>
  C5. Entries of the history written by the assistant never contribute: two histories
  with the same user entries in the same order, whatever their other entries, give the
  same score, mood and strategy for every text.
\<close>

theorem assistant_turns_ignored:
  "userTurns h1 = userTurns h2 \<Longrightarrow> analyzeSentiment text h1 = analyzeSentiment text h2"
  by (simp add: analyzeSentiment_def totalScore_userTurns)

theorem assistant_turns_ignored_witness:
  "userTurns (Some [\<lparr>role = ''user'', content = ''bad''\<rparr>,
                    \<lparr>role = ''assistant'', content = ''terrible garbage''\<rparr>,
                    \<lparr>role = ''user'', content = ''prove it''\<rparr>])
   = userTurns (Some [\<lparr>role = ''assistant'', content = ''GREAT!!''\<rparr>,
                      \<lparr>role = ''user'', content = ''bad''\<rparr>,
                      \<lparr>role = ''user'', content = ''prove it''\<rparr>]) \<and>
   analyzeSentiment ''ok''
     (Some [\<lparr>role = ''user'', content = ''bad''\<rparr>,
            \<lparr>role = ''assistant'', content = ''terrible garbage''\<rparr>,
            \<lparr>role = ''user'', content = ''prove it''\<rparr>])
   = analyzeSentiment ''ok''
     (Some [\<lparr>role = ''assistant'', content = ''GREAT!!''\<rparr>,
            \<lparr>role = ''user'', content = ''bad''\<rparr>,
            \<lparr>role = ''user'', content = ''prove it''\<rparr>])"
proof -
  have h: "userTurns (Some [\<lparr>role = ''user'', content = ''bad''\<rparr>,
                    \<lparr>role = ''assistant'', content = ''terrible garbage''\<rparr>,
                    \<lparr>role = ''user'', content = ''prove it''\<rparr>])
   = userTurns (Some [\<lparr>role = ''assistant'', content = ''GREAT!!''\<rparr>,
                      \<lparr>role = ''user'', content = ''bad''\<rparr>,
                      \<lparr>role = ''user'', content = ''prove it''\<rparr>])"
    by (simp add: userTurns_def)
  from h assistant_turns_ignored [OF h, of "''ok''"] show ?thesis by simp
qed

subsection \<open>No history\<close>

text \<open>
  C6. With an absent or an empty history \<open>analyzeSentiment\<close> returns the raw score of the
  current utterance clamped to the range from 0 to 100 (the raw score is an integer, which
  rounding leaves as it is), with the mood and strategy of that score; for the empty text
  and no history it returns score 0, mood POSITIVE and strategy AGGRESSIVE.
\<close>

theorem no_history_score:
  "analyzeSentiment text None = analyzeSentiment text (Some []) \<and>
   analyzeSentiment text None =
     \<lparr>mood = getMoodFromScore (max 0 (min (analyzeTextScore text) 100)),
      score = max 0 (min (analyzeTextScore text) 100),
      strategy = getStrategyFromMood (getMoodFromScore (max 0 (min (analyzeTextScore text) 100)))\<rparr> \<and>
   analyzeSentiment '''' None = \<lparr>mood = POSITIVE, score = 0, strategy = AGGRESSIVE\<rparr> \<and>
   analyzeSentiment '''' (Some []) = \<lparr>mood = POSITIVE, score = 0, strategy = AGGRESSIVE\<rparr>"
proof -
  have t: "totalScore text' None = of_int (analyzeTextScore text')"
    "totalScore text' (Some []) = of_int (analyzeTextScore text')" for text'
    by (simp_all add: totalScore_def)
  have e: "analyzeTextScore '''' = 0" by code_simp
  have s: "getStrategyFromMood POSITIVE = AGGRESSIVE"
    by (simp add: getStrategyFromMood_def strategySwitch_def)
  show ?thesis
    by (simp add: analyzeSentiment_def t Math_round_eq_round Let_def e s)
qed

subsection \<open>Rounding before clamping\<close>

text \<open>
  The bounds 0 and 100 are integers and rounding is monotone, so clamping the total
  before rounding it would give the same integer.
\<close>

lemma clamp_round_commute:
  "max 0 (min (round x) 100) = round (max 0 (min x 100))" for x :: rat
proof -
  have r0: "round (0 :: rat) = 0" and r100: "round (100 :: rat) = 100" by simp_all
  consider "x \<le> 0" | "0 \<le> x" "x \<le> 100" | "100 \<le> x" by linarith
  then show ?thesis
  proof cases
    case 1
    then have "round x \<le> 0" using round_mono [of x 0] by simp
    with 1 show ?thesis by (simp add: max_def min_def)
  next
    case 2
    then have "0 \<le> round x" "round x \<le> 100"
      using round_mono [of 0 x] round_mono [of x 100] by simp_all
    with 2 show ?thesis by (simp add: max_def min_def)
  next
    case 3
    then have "100 \<le> round x" using round_mono [of 100 x] by simp
    with 3 show ?thesis by (auto simp add: max_def min_def)
  qed
qed

text \<open>
  What \<open>analyzeSentiment\<close> returns, in the exact arithmetic of this embedding: the total
  of the loop, with the weight \<open>decayFactor ^ i\<close> on the retained turn at index \<open>i\<close>, is
  rounded and then clamped.
\<close>

lemma score_clamped_round_of_code_total:
  "score (analyzeSentiment text history) =
     max 0 (min (round ((\<Sum>i<length (userTurns history).
         of_int (analyzeTextScore (content (userTurns history ! i))) * decayFactor ^ i)
       + of_int (analyzeTextScore text))) 100)"
  by (simp add: analyzeSentiment_def Math_round_eq_round Let_def totalScore_code_weights)

text \<open>
  C7. The claim: for every text and history the final score is
  \<open>max 0 (min (round total) 100)\<close>, where \<open>total\<close> is the decayed weighted sum over the
  history plus the raw score of the current utterance. The source rounds and then clamps,
  but the total it rounds is not that sum: its loop weights the retained turn at index
  \<open>i\<close> by \<open>decayFactor ^ i\<close> instead of \<open>decayFactor ^ (N - 1 - i)\<close>. On the history of a
  user turn "garbage liar scam" (raw score 45) followed by a user turn "ok" (raw score 0),
  with the current text "ok", the source returns score 45 and mood SKEPTICAL, where the
  rounded and clamped decayed sum is 27, a NEUTRAL score. The products and sums of the
  source at this input are integers (45 times 1, 0 times a weight), so its score is the
  same in double arithmetic, where the claimed total, 45 times 0.6, rounds to 27 as well.
\<close>

theorem final_score_not_round_of_decayed_sum:
  "score (analyzeSentiment ''ok'' (Some [\<lparr>role = ''user'', content = ''garbage liar scam''\<rparr>,
                                         \<lparr>role = ''user'', content = ''ok''\<rparr>])) = 45 \<and>
   max 0 (min (round (spec_totalScore ''ok''
       (Some [\<lparr>role = ''user'', content = ''garbage liar scam''\<rparr>,
              \<lparr>role = ''user'', content = ''ok''\<rparr>]))) 100) = 27 \<and>
   mood (analyzeSentiment ''ok'' (Some [\<lparr>role = ''user'', content = ''garbage liar scam''\<rparr>,
                                        \<lparr>role = ''user'', content = ''ok''\<rparr>])) = SKEPTICAL \<and>
   getMoodFromScore (max 0 (min (round (spec_totalScore ''ok''
       (Some [\<lparr>role = ''user'', content = ''garbage liar scam''\<rparr>,
              \<lparr>role = ''user'', content = ''ok''\<rparr>]))) 100)) = NEUTRAL"
proof -
  have s1: "analyzeTextScore ''garbage liar scam'' = 45" by code_simp
  have s2: "analyzeTextScore ''ok'' = 0" by code_simp
  have u: "userTurns (Some [\<lparr>role = ''user'', content = ''garbage liar scam''\<rparr>,
                            \<lparr>role = ''user'', content = ''ok''\<rparr>])
      = [\<lparr>role = ''user'', content = ''garbage liar scam''\<rparr>,
         \<lparr>role = ''user'', content = ''ok''\<rparr>]"
    by (simp add: userTurns_def)
  have c: "totalScore ''ok'' (Some [\<lparr>role = ''user'', content = ''garbage liar scam''\<rparr>,
                                    \<lparr>role = ''user'', content = ''ok''\<rparr>]) = 45"
    by (simp add: totalScore_code_weights u s1 s2 lessThan_Suc numeral_2_eq_2)
  have d: "spec_totalScore ''ok'' (Some [\<lparr>role = ''user'', content = ''garbage liar scam''\<rparr>,
                                         \<lparr>role = ''user'', content = ''ok''\<rparr>]) = 27"
    by (simp add: spec_totalScore_def u s1 s2 spec_weight_def decayFactor_def)
  have r: "round (27 :: rat) = 27" "round (45 :: rat) = 45" by simp_all
  have a: "analyzeSentiment ''ok'' (Some [\<lparr>role = ''user'', content = ''garbage liar scam''\<rparr>,
                                          \<lparr>role = ''user'', content = ''ok''\<rparr>])
      = \<lparr>mood = SKEPTICAL, score = 45, strategy = DIPLOMATIC\<rparr>"
    by (simp add: analyzeSentiment_def c Math_round_eq_round r getStrategyFromMood_def
        strategySwitch_def)
  show ?thesis unfolding d a r by simp
qed

subsection \<open>A worked example\<close>

text \<open>
  C9. The text "This is terrible and stupid!!" with no history has raw score 38: of the
  anger words exactly "stupid" and "terrible" occur in it (15 each), no skeptical phrase
  and no positive word does, it has no shouted word and one run of exclamation marks (8).
  The result is score 38, mood NEUTRAL, strategy ASSERTIVE.
\<close>

theorem terrible_and_stupid:
  "analyzeTextScore ''This is terrible and stupid!!'' = 38 \<and>
   filter (str_includes (toLowerCase ''This is terrible and stupid!!'')) ANGER_WORDS
     = [''stupid'', ''terrible''] \<and>
   filter (str_includes (toLowerCase ''This is terrible and stupid!!'')) SKEPTICAL_PHRASES = [] \<and>
   filter (str_includes (toLowerCase ''This is terrible and stupid!!'')) POSITIVE_WORDS = [] \<and>
   capsWords ''This is terrible and stupid!!'' = 0 \<and>
   multiPunct (CHR ''!'') ''This is terrible and stupid!!'' = 1 \<and>
   multiPunct (CHR ''?'') ''This is terrible and stupid!!'' = 0 \<and>
   analyzeSentiment ''This is terrible and stupid!!'' None
     = \<lparr>mood = NEUTRAL, score = 38, strategy = ASSERTIVE\<rparr>"
  by code_simp

subsection \<open>Once per lexicon entry, once per pattern match\<close>

text \<open>
  C10. A lexicon delta is applied once for each lexicon entry that occurs in the
  lower-cased text, however often it occurs there: 15 for each anger word present, 10 for
  each skeptical phrase present, -8 for each positive word present. Shouted words and
  runs of exclamation or question marks count per match, 12 and 8 each. So "bad bad bad"
  scores 15 like "bad", and so does any number of repetitions of "bad ", while \<open>n\<close>
  repetitions of "ABC " score \<open>12 * n\<close> and \<open>n\<close> repetitions of "!! " or of "?? " score
  \<open>8 * n\<close>.
\<close>

theorem lexicon_once_per_entry:
  "analyzeTextScore text =
     15 * int (card {w \<in> set ANGER_WORDS. str_includes (toLowerCase text) w})
   + 10 * int (card {w \<in> set SKEPTICAL_PHRASES. str_includes (toLowerCase text) w})
   - 8 * int (card {w \<in> set POSITIVE_WORDS. str_includes (toLowerCase text) w})
   + 12 * int (capsWords text)
   + 8 * int (multiPunct (CHR ''!'') text + multiPunct (CHR ''?'') text) \<and>
   analyzeTextScore ''bad'' = 15 \<and>
   analyzeTextScore ''bad bad bad'' = 15 \<and>
   analyzeTextScore (concat (replicate (Suc n) ''bad '')) = 15 \<and>
   analyzeTextScore (concat (replicate n ''ABC '')) = 12 * int n \<and>
   analyzeTextScore (concat (replicate n ''!! '')) = 8 * int n \<and>
   analyzeTextScore (concat (replicate n ''?? '')) = 8 * int n"
proof -
  have f: "analyzeTextScore text =
     15 * int (card {w \<in> set ANGER_WORDS. str_includes (toLowerCase text) w})
   + 10 * int (card {w \<in> set SKEPTICAL_PHRASES. str_includes (toLowerCase text) w})
   - 8 * int (card {w \<in> set POSITIVE_WORDS. str_includes (toLowerCase text) w})
   + 12 * int (capsWords text)
   + 8 * int (multiPunct (CHR ''!'') text + multiPunct (CHR ''?'') text)"
    unfolding analyzeTextScore_formula
    by (simp only: length_filter_card [OF distinct_lexicons(1)]
        length_filter_card [OF distinct_lexicons(2)] length_filter_card [OF distinct_lexicons(3)])
  have b1: "analyzeTextScore ''bad'' = 15" by code_simp
  have b3: "analyzeTextScore ''bad bad bad'' = 15" by code_simp
  show ?thesis using f b1 b3 score_bad [of n] score_ABC [of n] score_excl [of n] score_quest [of n]
    by blast
qed

end
